theory Spec2Isabelle
  imports Main
begin

section \<open>JavaScript values and strings\<close>

text \<open>
  The blog front end (\<^verbatim>\<open>src/blog/static/blog/index.js\<close>) is embedded function by function.
  A JavaScript string is modelled as a \<^typ>\<open>string\<close> of ASCII characters. A string field that
  is missing from an object behaves like the empty string in every test the code makes
  (\<^verbatim>\<open>if (x)\<close>, \<^verbatim>\<open>x || y\<close>, \<^verbatim>\<open>x && typeof x === 'string' && x.trim()\<close>), so the
  empty string stands for both. The field \<^verbatim>\<open>image\<close> of a post is called \<open>image_url\<close>.
\<close>

definition is_space :: "char \<Rightarrow> bool" where
  \<comment> \<open>the ASCII characters that \<^verbatim>\<open>String.prototype.trim\<close> removes: TAB, LF, VT, FF, CR, SP\<close>
  "is_space c = (c \<in> set [CHR 0x09, CHR 0x0A, CHR 0x0B, CHR 0x0C, CHR 0x0D, CHR 0x20])"

definition is_token_space :: "char \<Rightarrow> bool" where
  \<comment> \<open>the ASCII white space of the DOM, which a class token must not contain:
      TAB, LF, FF, CR, SP\<close>
  "is_token_space c = (c \<in> set [CHR 0x09, CHR 0x0A, CHR 0x0C, CHR 0x0D, CHR 0x20])"

definition trim :: "string \<Rightarrow> string" where
  "trim s = rev (dropWhile is_space (rev (dropWhile is_space s)))"

definition lower_char :: "char \<Rightarrow> char" where
  "lower_char c =
     (case map_of (zip ''ABCDEFGHIJKLMNOPQRSTUVWXYZ'' ''abcdefghijklmnopqrstuvwxyz'') c of
        Some d \<Rightarrow> d | None \<Rightarrow> c)"

definition upper_char :: "char \<Rightarrow> char" where
  "upper_char c =
     (case map_of (zip ''abcdefghijklmnopqrstuvwxyz'' ''ABCDEFGHIJKLMNOPQRSTUVWXYZ'') c of
        Some d \<Rightarrow> d | None \<Rightarrow> c)"

definition toLowerCase :: "string \<Rightarrow> string" where
  "toLowerCase s = map lower_char s"

definition toUpperCase :: "string \<Rightarrow> string" where
  "toUpperCase s = map upper_char s"

definition js_or :: "string \<Rightarrow> string \<Rightarrow> string" where
  \<comment> \<open>\<^verbatim>\<open>a || b\<close> on strings: the empty string is falsy\<close>
  "js_or a b = (if a \<noteq> [] then a else b)"

fun dec_nat :: "nat \<Rightarrow> string" where
  "dec_nat n =
     (if n < 10 then [''0123456789'' ! n]
      else dec_nat (n div 10) @ [''0123456789'' ! (n mod 10)])"

definition dec :: "int \<Rightarrow> string" where
  \<comment> \<open>how JavaScript prints an integer-valued number (below \<open>10^21\<close> in magnitude)\<close>
  "dec n = (if n < 0 then CHR ''-'' # dec_nat (nat (- n)) else dec_nat (nat n))"

section \<open>Posts and category labels\<close>

record post =
  title :: string
  content :: string
  author :: string
  pub_date :: string
  url :: string
  tags :: string
  category :: string
  thumbnail :: string
  thumbnail_small :: string
  image_url :: string

definition getPostCategory :: "post \<Rightarrow> string" where
  "getPostCategory postData =
     (if trim (category postData) \<noteq> [] then trim (category postData)
      else if trim (tags postData) \<noteq> []
              \<and> trim (takeWhile (\<lambda>c. c \<noteq> CHR '','') (tags postData)) \<noteq> []
           then trim (takeWhile (\<lambda>c. c \<noteq> CHR '','') (tags postData))
      else ''post'')"

text \<open>
  \<^verbatim>\<open>getCategoryDisplayText\<close> looks the lower-cased category up in an object literal. A
  property lookup on an object literal also finds what the object inherits: of the names
  \<^verbatim>\<open>Object.prototype\<close> carries, \<^verbatim>\<open>constructor\<close> and \<^verbatim>\<open>__proto__\<close> are all lower case,
  and both hold a truthy value that is not a string.
\<close>

datatype display = Text string | Inherited string

definition displayNames :: "(string \<times> string) list" where
  "displayNames =
     [(''tech'', ''Tech''), (''thoughts'', ''Thoughts''), (''stories'', ''Stories''),
      (''career'', ''Career''), (''project'', ''Project''), (''post'', ''Post'')]"

definition inherited_names :: "string list" where
  "inherited_names = [''constructor'', ''__proto__'']"

definition capitalise :: "string \<Rightarrow> string" where
  \<comment> \<open>\<^verbatim>\<open>category.charAt(0).toUpperCase() + category.slice(1).toLowerCase()\<close>\<close>
  "capitalise s = toUpperCase (take 1 s) @ toLowerCase (drop 1 s)"

definition getCategoryDisplayText :: "string \<Rightarrow> display" where
  "getCategoryDisplayText cat =
     (if cat = [] then Text ''Post''
      else (case map_of displayNames (toLowerCase cat) of
              Some d \<Rightarrow> Text d
            | None \<Rightarrow>
                if toLowerCase cat \<in> set inherited_names then Inherited (toLowerCase cat)
                else Text (capitalise cat)))"

section \<open>Cards and the other nodes of the two containers\<close>

text \<open>
  The children of \<^verbatim>\<open>#featured\<close> and \<^verbatim>\<open>#post-list\<close>. A card keeps the image element the
  code builds for it and the post record; its title, tag chips, excerpt and byline are
  functions of the record alone and are not spelled out. The image is what the code
  decides when the card is built (a later \<^verbatim>\<open>onerror\<close> of the browser is not modelled).
\<close>

datatype image_part = Img string | Caption display

datatype thumb_part = Thumbnail string | Placeholder string display

datatype node =
    FeaturedCard image_part post
  | RegularCard thumb_part post
  | GhostCard
  | ErrorBanner nat string
  | SearchingNote
  | SearchingByTagNote
  | NoResults
  | SearchErrorNote

definition featured_image :: "post \<Rightarrow> nat \<Rightarrow> image_part" where
  "featured_image postData index =
     (if js_or (thumbnail postData) (image_url postData) \<noteq> [] then
        Img (if index = 0 then js_or (thumbnail postData) (image_url postData)
             else js_or (thumbnail_small postData)
                    (js_or (thumbnail postData) (image_url postData)))
      else Caption (getCategoryDisplayText (getPostCategory postData)))"

definition regular_thumb :: "post \<Rightarrow> thumb_part" where
  \<comment> \<open>\<^verbatim>\<open>classList.add\<close> throws on a token with white space; the \<^verbatim>\<open>catch\<close> then builds
      the fallback placeholder of class \<^verbatim>\<open>post\<close>\<close>
  "regular_thumb postData =
     (if js_or (thumbnail_small postData) (js_or (thumbnail postData) (image_url postData)) \<noteq> []
      then Thumbnail
             (js_or (thumbnail_small postData) (js_or (thumbnail postData) (image_url postData)))
      else if list_ex is_token_space (toLowerCase (getPostCategory postData))
           then Placeholder ''post'' (Text ''Post'')
      else Placeholder (toLowerCase (getPostCategory postData))
             (getCategoryDisplayText (getPostCategory postData)))"

definition createRegularPost :: "post \<Rightarrow> node" where
  "createRegularPost postData = RegularCard (regular_thumb postData) postData"

definition ghost_fill :: "int \<Rightarrow> node list \<Rightarrow> node list" where
  \<comment> \<open>what \<^verbatim>\<open>addGhostCards\<close> makes of the children of \<^verbatim>\<open>#post-list\<close>, given its
      \<^verbatim>\<open>offsetWidth\<close>; \<^verbatim>\<open>postsCount\<close> is read before the old fillers are removed\<close>
  "ghost_fill containerWidth children =
     (let postsCount = int (length children);
          kept = filter (\<lambda>n. n \<noteq> GhostCard) children
      in if containerWidth \<le> 0 then kept
         else let cardsPerRow = containerWidth div 350
              in if cardsPerRow = 0 then kept
                 else if postsCount mod cardsPerRow \<noteq> 0 \<and> cardsPerRow > 1
                      then kept @ replicate (nat (cardsPerRow - postsCount mod cardsPerRow)) GhostCard
                 else kept)"

section \<open>Requests, responses and the page state\<close>

text \<open>
  A request is the URL that \<^verbatim>\<open>fetch\<close> was given, kept by its parts (the search parameter
  is sent through \<^verbatim>\<open>encodeURIComponent\<close>), together with the code that waits for the
  response: the rest of \<^verbatim>\<open>loadImages\<close>, which reads the global \<^verbatim>\<open>page_num\<close> again, or
  the promise chain of \<^verbatim>\<open>loadSearchResults\<close>, which closes over its \<^verbatim>\<open>page\<close> and \<^verbatim>\<open>query\<close>.
\<close>

record url =
  path :: string
  page_param :: int
  search_param :: "string option"

datatype continuation = ListingResume | SearchResume int string

record request =
  req_url :: url
  resume :: continuation

datatype posts_field = Missing | NotArray | Posts "post list"

record payload =
  blog_posts :: posts_field
  has_next :: bool
  total_results :: int

text \<open>
  A payload is what the code reads from the parsed body. \<open>Missing\<close> is a falsy
  \<^verbatim>\<open>blog_posts\<close> (also an absent one), \<open>NotArray\<close> a truthy one that is no array.
  \<open>has_next\<close> is the truthiness of the field and \<open>total_results\<close> its number, an integer
  (0 when absent). A body that is some other JSON value than an object, such as
  \<^verbatim>\<open>5\<close>, \<^verbatim>\<open>"x"\<close> or \<^verbatim>\<open>true\<close>, has none of the fields: reading them gives \<^verbatim>\<open>undefined\<close>, so it
  is the payload with \<open>Missing\<close>, \<open>False\<close> and 0.

  A response is a network failure or a status with a body. The body is \<open>None\<close> in the two
  cases where the code throws on it: the text is not JSON (\<^verbatim>\<open>response.json()\<close> rejects), or
  it is the JSON value \<^verbatim>\<open>null\<close> (reading a field of \<^verbatim>\<open>null\<close> throws).
\<close>

datatype response = NetworkError | HttpResponse nat "payload option"

definition response_ok :: "nat \<Rightarrow> bool" where
  "response_ok status = (200 \<le> status \<and> status \<le> 299)"

datatype callback =
    CheckMoreContent
  | AutoFill
  | ScrollCheck
  | ResizeFill
  | DismissBanner node

datatype status_line = StatusHidden | StatusShown string

text \<open>
  The state: the script's global variables, the two \<^verbatim>\<open>window\<close> properties (\<open>None\<close>
  while undefined), the elements the script binds to (\<open>None\<close> when the document has no
  such element), the measurements the script reads, and what it has handed to the
  browser: the fetches in flight, the pending timers with their delays, and the number
  of \<^verbatim>\<open>scrollTo\<close> calls. The filter pills are not modelled.
\<close>

record state =
  page_num :: int
  isLoading :: bool
  currentSearchQuery :: string
  currentTag :: string
  isSearchMode :: bool
  hasNext :: "bool option"
  currentPage :: "int option"
  scrollTimeout :: bool
  featured :: "node list option"
  post_list :: "node list option"
  section_title :: "string option"
  search_input :: "string option"
  search_status :: "status_line option"
  search_active :: bool
  offsetWidth :: int
  scrollHeight :: int
  innerHeight :: int
  scrollY :: int
  bodyHeight :: int
  requests :: "request list"
  timers :: "(nat \<times> callback) list"
  next_banner :: nat
  scrolls_to_top :: nat

definition setTimeout :: "callback \<Rightarrow> nat \<Rightarrow> state \<Rightarrow> state" where
  "setTimeout cb delay s = s\<lparr>timers := timers s @ [(delay, cb)]\<rparr>"

definition fetch :: "url \<Rightarrow> continuation \<Rightarrow> state \<Rightarrow> state" where
  "fetch u k s = s\<lparr>requests := requests s @ [\<lparr>req_url = u, resume = k\<rparr>]\<rparr>"

definition scrollToTop :: "state \<Rightarrow> state" where
  "scrollToTop s = s\<lparr>scrolls_to_top := Suc (scrolls_to_top s)\<rparr>"

definition showErrorMessage :: "string \<Rightarrow> state \<Rightarrow> state" where
  \<comment> \<open>every call in the file leaves \<^verbatim>\<open>container\<close> out, so the banner goes to \<^verbatim>\<open>#post-list\<close>\<close>
  "showErrorMessage message s =
     (let errorDiv = ErrorBanner (next_banner s) message;
          s1 = s\<lparr>next_banner := Suc (next_banner s)\<rparr>;
          s2 = (case post_list s1 of
                  None \<Rightarrow> s1
                | Some children \<Rightarrow> s1\<lparr>post_list := Some (children @ [errorDiv])\<rparr>)
      in setTimeout (DismissBanner errorDiv) 5000 s2)"

definition addGhostCards :: "state \<Rightarrow> state" where
  "addGhostCards s =
     (case post_list s of
        None \<Rightarrow> s
      | Some children \<Rightarrow> s\<lparr>post_list := Some (ghost_fill (offsetWidth s) children)\<rparr>)"

definition createFeaturedPost :: "post \<Rightarrow> nat \<Rightarrow> state \<Rightarrow> state" where
  "createFeaturedPost postData index s =
     (case featured s of
        None \<Rightarrow> showErrorMessage ''Error creating featured post'' s
      | Some children \<Rightarrow>
          s\<lparr>featured := Some (children @ [FeaturedCard (featured_image postData index) postData])\<rparr>)"

definition appendRegularPosts :: "post list \<Rightarrow> state \<Rightarrow> state" where
  \<comment> \<open>the \<^verbatim>\<open>forEach\<close> that appends \<^verbatim>\<open>createRegularPost(post)\<close> to an existing \<^verbatim>\<open>#post-list\<close>\<close>
  "appendRegularPosts posts s =
     (case post_list s of
        None \<Rightarrow> s
      | Some children \<Rightarrow> s\<lparr>post_list := Some (children @ map createRegularPost posts)\<rparr>)"

section \<open>The listing stream: \<^verbatim>\<open>loadImages\<close>\<close>

text \<open>
  \<^verbatim>\<open>loadImages\<close> is an \<^verbatim>\<open>async\<close> function whose whole body is one
  \<^verbatim>\<open>try\<close>/\<^verbatim>\<open>catch\<close>/\<^verbatim>\<open>finally\<close>. A call runs up to the \<^verbatim>\<open>await fetch\<close>
  (\<open>loadImages\<close>); the rest runs when the response arrives (\<open>loadImages_resume\<close>). The
  \<^verbatim>\<open>finally\<close> block runs on every way out of the \<^verbatim>\<open>try\<close>, the early
  \<^verbatim>\<open>return\<close> of the \<^verbatim>\<open>isLoading\<close> guard included.
\<close>

definition loadImages_finally :: "state \<Rightarrow> state" where
  "loadImages_finally s = setTimeout CheckMoreContent 100 (s\<lparr>isLoading := False\<rparr>)"

definition listing_url :: "int \<Rightarrow> url" where
  \<comment> \<open>\<^verbatim>\<open>"?page=" + page_num\<close>, relative to the document\<close>
  "listing_url n = \<lparr>path = [], page_param = n, search_param = None\<rparr>"

definition loadImages :: "state \<Rightarrow> state" where
  "loadImages s =
     (if isLoading s then loadImages_finally s
      else fetch (listing_url (page_num s)) ListingResume (s\<lparr>isLoading := True\<rparr>))"

definition render_listing :: "payload \<Rightarrow> state \<Rightarrow> state" where
  "render_listing data s =
     (case blog_posts data of
        Posts ps \<Rightarrow>
          if ps = [] then s
          else if page_num s = 1 then
            (case featured s of
               None \<Rightarrow> s
             | Some old \<Rightarrow>
                 let s1 = fold (\<lambda>(index, p). createFeaturedPost p index)
                            (enumerate 0 (take 3 ps)) (s\<lparr>featured := Some []\<rparr>)
                 in if length ps > 3 then
                      (case post_list s1 of
                         None \<Rightarrow> s1
                       | Some children \<Rightarrow> addGhostCards (appendRegularPosts (drop 3 ps) s1))
                    else s1)
          else if page_num s > 1 then
            (case post_list s of
               None \<Rightarrow> s
             | Some children \<Rightarrow> addGhostCards (appendRegularPosts ps s))
          else s
      | _ \<Rightarrow> s)"

definition loadImages_failed :: "state \<Rightarrow> state" where
  \<comment> \<open>the \<^verbatim>\<open>catch\<close> block, then \<^verbatim>\<open>finally\<close>\<close>
  "loadImages_failed s =
     loadImages_finally
       (showErrorMessage ''Error loading blog posts. Please try refreshing the page.'' s)"

definition loadImages_resume :: "response \<Rightarrow> state \<Rightarrow> state" where
  "loadImages_resume r s =
     (case r of
        NetworkError \<Rightarrow> loadImages_failed s
      | HttpResponse status body \<Rightarrow>
          if \<not> response_ok status then loadImages_failed s
          else (case body of
                  None \<Rightarrow> loadImages_failed s
                | Some data \<Rightarrow>
                    if \<not> has_next data \<and> page_num s > 1
                    then loadImages_finally (s\<lparr>isLoading := False\<rparr>)
                    else let s1 = render_listing data s
                         in loadImages_finally (s1\<lparr>page_num := page_num s1 + 1\<rparr>)))"

section \<open>The search stream\<close>

text \<open>
  \<^verbatim>\<open>loadSearchResults\<close> may be handed anything. Of the numbers, \<open>JNum n\<close> is the
  integer-valued number \<open>n\<close>, \<open>JNaN\<close> is \<^verbatim>\<open>NaN\<close> itself, \<open>JInfinity\<close> is \<^verbatim>\<open>Infinity\<close>
  (\<open>True\<close>) or \<^verbatim>\<open>-Infinity\<close> (\<open>False\<close>), and \<open>JFrac c cs\<close> is a finite number that is not an
  integer, such as 1.5, kept by the text \<open>c # cs\<close> that JavaScript prints for it (the text
  of a number is never empty). Only \<open>JNum\<close> passes \<^verbatim>\<open>Number.isInteger\<close>; of the numbers,
  only 0 and \<^verbatim>\<open>NaN\<close> are falsy. \<open>JObj\<close> is an object with the string its \<^verbatim>\<open>toString\<close>
  gives, or \<open>None\<close> when that throws.
\<close>

datatype jsval = JUndefined | JNull | JBool bool | JNum int | JNaN | JInfinity bool
  | JFrac char string | JStr string | JObj "string option"

datatype exn = TypeError

fun truthy :: "jsval \<Rightarrow> bool" where
  "truthy JUndefined = False"
| "truthy JNull = False"
| "truthy (JBool b) = b"
| "truthy (JNum n) = (n \<noteq> 0)"
| "truthy JNaN = False"
| "truthy (JInfinity positive) = True"
| "truthy (JFrac c cs) = True"
| "truthy (JStr s) = (s \<noteq> [])"
| "truthy (JObj t) = True"

fun js_String :: "jsval \<Rightarrow> exn + string" where
  "js_String JUndefined = Inr ''undefined''"
| "js_String JNull = Inr ''null''"
| "js_String (JBool b) = Inr (if b then ''true'' else ''false'')"
| "js_String (JNum n) = Inr (dec n)"
| "js_String JNaN = Inr ''NaN''"
| "js_String (JInfinity positive) = Inr (if positive then ''Infinity'' else ''-Infinity'')"
| "js_String (JFrac c cs) = Inr (c # cs)"
| "js_String (JStr s) = Inr s"
| "js_String (JObj None) = Inl TypeError"
| "js_String (JObj (Some t)) = Inr t"

definition coerce_query :: "jsval \<Rightarrow> exn + string" where
  \<comment> \<open>\<^verbatim>\<open>if (typeof query !== 'string') query = String(query || '')\<close>\<close>
  "coerce_query query =
     (case query of
        JStr q \<Rightarrow> Inr q
      | _ \<Rightarrow> js_String (if truthy query then query else JStr []))"

definition coerce_page :: "jsval \<Rightarrow> int" where
  \<comment> \<open>\<^verbatim>\<open>if (!Number.isInteger(page) || page < 1) page = 1\<close>\<close>
  "coerce_page page = (case page of JNum n \<Rightarrow> if n < 1 then 1 else n | _ \<Rightarrow> 1)"

definition search_url :: "string \<Rightarrow> int \<Rightarrow> url" where
  "search_url query page =
     \<lparr>path = ''/blog/search/'', page_param = page,
      search_param = (if query \<noteq> [] then Some query else None)\<rparr>"

definition showSearchError :: "state \<Rightarrow> state" where
  "showSearchError s =
     (case post_list s of
        None \<Rightarrow> s
      | Some children \<Rightarrow> s\<lparr>post_list := Some [SearchErrorNote]\<rparr>)"

definition loadSearchResults_try :: "jsval \<Rightarrow> jsval \<Rightarrow> state \<Rightarrow> exn + state" where
  \<comment> \<open>the outer \<^verbatim>\<open>try\<close> block\<close>
  "loadSearchResults_try query page s =
     (case coerce_query query of
        Inl e \<Rightarrow> Inl e
      | Inr q \<Rightarrow>
          Inr (fetch (search_url q (coerce_page page)) (SearchResume (coerce_page page) q) s))"

definition loadSearchResults :: "jsval \<Rightarrow> jsval \<Rightarrow> state \<Rightarrow> exn + state" where
  "loadSearchResults query page s =
     (case loadSearchResults_try query page s of
        Inr s' \<Rightarrow> Inr s'
      | Inl e \<Rightarrow> Inr ((showSearchError s)\<lparr>isLoading := False\<rparr>))"

definition displaySearchResults :: "posts_field \<Rightarrow> state \<Rightarrow> state" where
  "displaySearchResults posts s =
     (case post_list s of
        None \<Rightarrow> showSearchError s
      | Some children \<Rightarrow>
          (case posts of
             Posts ps \<Rightarrow>
               if ps = [] then s\<lparr>post_list := Some [NoResults]\<rparr>
               else addGhostCards (appendRegularPosts ps (s\<lparr>post_list := Some []\<rparr>))
           | _ \<Rightarrow> s\<lparr>post_list := Some [NoResults]\<rparr>))"

definition appendSearchResults :: "posts_field \<Rightarrow> state \<Rightarrow> state" where
  "appendSearchResults posts s =
     (case post_list s of
        None \<Rightarrow> s
      | Some children \<Rightarrow>
          (case posts of
             Posts ps \<Rightarrow> addGhostCards (appendRegularPosts ps s)
           | _ \<Rightarrow> s))"

definition updateSearchStatus :: "int \<Rightarrow> string \<Rightarrow> state \<Rightarrow> state" where
  "updateSearchStatus totalResults query s =
     (case search_status s of
        None \<Rightarrow> s
      | Some old \<Rightarrow>
          if query \<noteq> [] then
            s\<lparr>search_status :=
                Some (StatusShown (dec totalResults @ '' result''
                                     @ (if totalResults \<noteq> 1 then ''s'' else [])))\<rparr>
          else s\<lparr>search_status := Some StatusHidden\<rparr>)"

definition search_failed :: "state \<Rightarrow> state" where
  "search_failed s = (showSearchError s)\<lparr>isLoading := False\<rparr>"

definition loadSearchResults_resume :: "int \<Rightarrow> string \<Rightarrow> response \<Rightarrow> state \<Rightarrow> state" where
  \<comment> \<open>the promise chain, with the \<^verbatim>\<open>page\<close> and \<^verbatim>\<open>query\<close> of the call\<close>
  "loadSearchResults_resume page query r s =
     (case r of
        NetworkError \<Rightarrow> search_failed s
      | HttpResponse status body \<Rightarrow>
          if \<not> response_ok status then search_failed s
          else (case body of
                  None \<Rightarrow> search_failed s
                | Some data \<Rightarrow>
                    let posts = (case blog_posts data of Missing \<Rightarrow> Posts [] | other \<Rightarrow> other);
                        s1 = (if page = 1 then displaySearchResults posts s
                              else appendSearchResults posts s);
                        s2 = s1\<lparr>hasNext := Some (has_next data), currentPage := Some page\<rparr>;
                        s3 = updateSearchStatus (total_results data) query s2
                    in setTimeout CheckMoreContent 100 (s3\<lparr>isLoading := False\<rparr>)))"

section \<open>Search, tag filter and reset\<close>

text \<open>
  The callers hand \<^verbatim>\<open>performSearch\<close> and \<^verbatim>\<open>filterByTag\<close> a string (the form and the
  input handler trim it first; \<^verbatim>\<open>performSearch\<close> itself does not). Each body is a
  \<^verbatim>\<open>try\<close> whose \<^verbatim>\<open>catch\<close> shows a banner.
\<close>

definition set_title :: "string \<Rightarrow> state \<Rightarrow> state" where
  \<comment> \<open>\<^verbatim>\<open>if (sectionTitle) sectionTitle.textContent = ...\<close>\<close>
  "set_title t s =
     (case section_title s of None \<Rightarrow> s | Some old \<Rightarrow> s\<lparr>section_title := Some t\<rparr>)"

definition clear_containers :: "state \<Rightarrow> state" where
  \<comment> \<open>\<^verbatim>\<open>if (featured) featured.innerHTML = ''; if (postList) postList.innerHTML = ''\<close>\<close>
  "clear_containers s =
     s\<lparr>featured := (case featured s of None \<Rightarrow> None | Some old \<Rightarrow> Some []),
       post_list := (case post_list s of None \<Rightarrow> None | Some old \<Rightarrow> Some [])\<rparr>"

definition performSearch :: "string \<Rightarrow> state \<Rightarrow> state" where
  "performSearch query s =
     (let s1 = s\<lparr>currentSearchQuery := query, currentTag := query,
                   isSearchMode := (length query > 0)\<rparr>
      in if isSearchMode s1 then
           (let s2 = set_title (''Search Results for \"'' @ currentSearchQuery s1 @ ''\"'')
                       (scrollToTop (s1\<lparr>search_active := True\<rparr>))
            in case post_list s2 of
                 None \<Rightarrow> s2
               | Some children \<Rightarrow>
                   (case loadSearchResults (JStr (currentSearchQuery s2)) (JNum 1)
                           (s2\<lparr>post_list := Some [SearchingNote]\<rparr>) of
                      Inr s3 \<Rightarrow> s3
                    | Inl e \<Rightarrow>
                        showErrorMessage ''Error performing search''
                          (s2\<lparr>post_list := Some [SearchingNote]\<rparr>)))
         else loadImages
                (scrollToTop (clear_containers (s1\<lparr>search_active := False, page_num := 1\<rparr>))))"

definition filterByTag :: "string \<Rightarrow> state \<Rightarrow> state" where
  "filterByTag tagName s =
     (if tagName = [] then s
      else
        let s1 = s\<lparr>search_input :=
                      (case search_input s of None \<Rightarrow> None | Some old \<Rightarrow> Some tagName)\<rparr>;
            s2 = s1\<lparr>currentSearchQuery := tagName, currentTag := tagName,
                    isSearchMode := True, search_active := True\<rparr>;
            s3 = set_title (''Posts tagged \"'' @ tagName @ ''\"'') s2
        in case post_list s3 of
             None \<Rightarrow> scrollToTop s3
           | Some children \<Rightarrow>
               (case loadSearchResults (JStr tagName) (JNum 1)
                       (s3\<lparr>post_list := Some [SearchingByTagNote]\<rparr>) of
                  Inr s4 \<Rightarrow> scrollToTop s4
                | Inl e \<Rightarrow>
                    showErrorMessage ''Error filtering posts by tag''
                      (s3\<lparr>post_list := Some [SearchingByTagNote]\<rparr>)))"

definition clearSearch :: "state \<Rightarrow> state" where
  "clearSearch s =
     (let s1 = s\<lparr>search_input :=
                      (case search_input s of None \<Rightarrow> None | Some old \<Rightarrow> Some []),
                   search_status :=
                      (case search_status s of None \<Rightarrow> None | Some old \<Rightarrow> Some StatusHidden),
                   search_active := False\<rparr>;
          s2 = s1\<lparr>page_num := 1, currentSearchQuery := [], currentTag := [],
                  isSearchMode := False, hasNext := Some True, currentPage := Some 1\<rparr>
      in loadImages (scrollToTop (set_title ''All Posts'' (clear_containers s2))))"

section \<open>Scroll, resize and the viewport check\<close>

definition next_search_page :: "state \<Rightarrow> jsval" where
  \<comment> \<open>\<^verbatim>\<open>window.currentPage + 1\<close>; \<^verbatim>\<open>undefined + 1\<close> is \<^verbatim>\<open>NaN\<close>\<close>
  "next_search_page s = (case currentPage s of None \<Rightarrow> JNaN | Some n \<Rightarrow> JNum (n + 1))"

definition load_next_search_page :: "state \<Rightarrow> state" where
  \<comment> \<open>\<^verbatim>\<open>isLoading = true; loadSearchResults(currentSearchQuery, window.currentPage + 1)\<close>
      inside a \<^verbatim>\<open>try\<close> whose \<^verbatim>\<open>catch\<close> only logs\<close>
  "load_next_search_page s =
     (case loadSearchResults (JStr (currentSearchQuery s)) (next_search_page s)
             (s\<lparr>isLoading := True\<rparr>) of
        Inr s' \<Rightarrow> s'
      | Inl e \<Rightarrow> s\<lparr>isLoading := True\<rparr>)"

definition onScroll :: "state \<Rightarrow> state" where
  \<comment> \<open>the \<^verbatim>\<open>scroll\<close> listener: one check per 100ms\<close>
  "onScroll s =
     (if scrollTimeout s then s else setTimeout ScrollCheck 100 (s\<lparr>scrollTimeout := True\<rparr>))"

definition scrollCheck :: "state \<Rightarrow> state" where
  "scrollCheck s0 =
     (let s = s0\<lparr>scrollTimeout := False\<rparr>
      in if innerHeight s + scrollY s \<ge> bodyHeight s - 1000 then
           (if isSearchMode s then
              (if hasNext s = Some True \<and> \<not> isLoading s then load_next_search_page s else s)
            else (if \<not> isLoading s then loadImages s else s))
         else s)"

definition onResize :: "state \<Rightarrow> state" where
  \<comment> \<open>\<^verbatim>\<open>clearTimeout(window.resizeTimeout)\<close>, then a new 250ms timer\<close>
  "onResize s =
     setTimeout ResizeFill 250 (s\<lparr>timers := filter (\<lambda>t. snd t \<noteq> ResizeFill) (timers s)\<rparr>)"

definition checkIfMoreContentNeeded :: "state \<Rightarrow> state" where
  "checkIfMoreContentNeeded s = setTimeout AutoFill 500 s"

definition autoFill :: "state \<Rightarrow> state" where
  \<comment> \<open>the callback that \<^verbatim>\<open>checkIfMoreContentNeeded\<close> schedules\<close>
  "autoFill s =
     (if scrollHeight s \<le> innerHeight s + 100 \<and> hasNext s = Some True \<and> \<not> isLoading s then
        (if isSearchMode s then load_next_search_page s else loadImages s)
      else s)"

section \<open>Events\<close>

text \<open>
  The page as a transition system. An event is a user action that reaches one of the
  handlers, a pending timer that fires, the response to a fetch in flight, or a new
  layout measured by the browser. Timers may fire in any order here.
\<close>

datatype event =
    Scroll
  | Resize
  | Fire nat
  | Respond nat response
  | PerformSearch string
  | ClearSearch
  | FilterByTag string
  | Measure int int int int int

definition run_callback :: "callback \<Rightarrow> state \<Rightarrow> state" where
  "run_callback cb s =
     (case cb of
        CheckMoreContent \<Rightarrow> checkIfMoreContentNeeded s
      | AutoFill \<Rightarrow> autoFill s
      | ScrollCheck \<Rightarrow> scrollCheck s
      | ResizeFill \<Rightarrow> addGhostCards s
      | DismissBanner errorDiv \<Rightarrow>
          (case post_list s of
             None \<Rightarrow> s
           | Some children \<Rightarrow> s\<lparr>post_list := Some (filter (\<lambda>n. n \<noteq> errorDiv) children)\<rparr>))"

definition deliver :: "request \<Rightarrow> response \<Rightarrow> state \<Rightarrow> state" where
  "deliver rq r s =
     (case resume rq of
        ListingResume \<Rightarrow> loadImages_resume r s
      | SearchResume page query \<Rightarrow> loadSearchResults_resume page query r s)"

definition step :: "event \<Rightarrow> state \<Rightarrow> state" where
  "step e s =
     (case e of
        Scroll \<Rightarrow> onScroll s
      | Resize \<Rightarrow> onResize s
      | Fire i \<Rightarrow>
          if i < length (timers s)
          then run_callback (snd (timers s ! i))
                 (s\<lparr>timers := take i (timers s) @ drop (Suc i) (timers s)\<rparr>)
          else s
      | Respond i r \<Rightarrow>
          if i < length (requests s)
          then deliver (requests s ! i) r
                 (s\<lparr>requests := take i (requests s) @ drop (Suc i) (requests s)\<rparr>)
          else s
      | PerformSearch query \<Rightarrow> performSearch query s
      | ClearSearch \<Rightarrow> clearSearch s
      | FilterByTag tagName \<Rightarrow> filterByTag tagName s
      | Measure w sh ih sy bh \<Rightarrow>
          s\<lparr>offsetWidth := w, scrollHeight := sh, innerHeight := ih, scrollY := sy,
            bodyHeight := bh\<rparr>)"

definition run :: "event list \<Rightarrow> state \<Rightarrow> state" where
  "run es s = foldl (\<lambda>s' e. step e s') s es"

definition blank_page :: state where
  \<comment> \<open>the variables as the script declares them, over a document that has every element
      the script binds to, all of them empty and not yet laid out\<close>
  "blank_page =
     \<lparr>page_num = 1, isLoading = False, currentSearchQuery = [], currentTag = [],
      isSearchMode = False, hasNext = None, currentPage = None, scrollTimeout = False,
      featured = Some [], post_list = Some [], section_title = Some [],
      search_input = Some [], search_status = Some StatusHidden, search_active = False,
      offsetWidth = 0, scrollHeight = 0, innerHeight = 0, scrollY = 0, bodyHeight = 0,
      requests = [], timers = [], next_banner = 0, scrolls_to_top = 0\<rparr>"

definition init :: state where
  \<comment> \<open>the script's first statements: \<^verbatim>\<open>loadImages(); isLoading = false;\<close>\<close>
  "init = (loadImages blank_page)\<lparr>isLoading := False\<rparr>"

definition empty_post :: post where
  "empty_post =
     \<lparr>title = [], content = [], author = [], pub_date = [], url = [], tags = [],
      category = [], thumbnail = [], thumbnail_small = [], image_url = []\<rparr>"

section \<open>Notions used to state the properties\<close>

definition page_of :: "post list \<Rightarrow> bool \<Rightarrow> response" where
  \<comment> \<open>a well-formed answer of the server: status 200, the posts, the \<^verbatim>\<open>has_next\<close> flag\<close>
  "page_of ps nxt =
     HttpResponse 200
       (Some \<lparr>blog_posts = Posts ps, has_next = nxt, total_results = int (length ps)\<rparr>)"

definition reset_view ::
  "state \<Rightarrow> int \<times> bool \<times> string \<times> string \<times> bool \<times> bool \<times> node list option
     \<times> node list option \<times> request list \<times> (nat \<times> callback) list \<times> nat" where
  \<comment> \<open>the paging and search variables, the two containers and the effects handed to the
      browser; the two \<^verbatim>\<open>window\<close> cursors, the title, the input and the status line are
      left out\<close>
  "reset_view s =
     (page_num s, isSearchMode s, currentSearchQuery s, currentTag s, search_active s,
      isLoading s, featured s, post_list s, requests s, timers s, scrolls_to_top s)"


section \<open>Category labels\<close>

lemma trim_prefix_nonblank:
  assumes "trim (takeWhile P s) \<noteq> []"
  shows "trim s \<noteq> []"
proof -
  have "\<exists>c \<in> set (takeWhile P s). \<not> is_space c"
  proof (rule ccontr)
    assume "\<not> ?thesis"
    then have "dropWhile is_space (takeWhile P s) = []" by simp
    with assms show False by (simp add: trim_def)
  qed
  then obtain c where "c \<in> set s" "\<not> is_space c"
    by (auto dest: set_takeWhileD)
  then have front: "dropWhile is_space s \<noteq> []" by auto
  then have "\<not> is_space (hd (dropWhile is_space s))"
    by (rule hd_dropWhile)
  with front have "\<exists>d \<in> set (dropWhile is_space s). \<not> is_space d"
    using hd_in_set by blast
  then have "dropWhile is_space (rev (dropWhile is_space s)) \<noteq> []" by auto
  then show ?thesis by (simp add: trim_def)
qed

lemma getPostCategory_nonempty: "getPostCategory p \<noteq> []"
  by (simp add: getPostCategory_def)

text \<open>
  Claim C8, as amended. \<^verbatim>\<open>getPostCategory\<close> returns the category field with the white space
  around it removed when that leaves something; else the first comma-separated entry of
  the tags, trimmed, when that leaves something; else \<^verbatim>\<open>post\<close>.
  \<^verbatim>\<open>getCategoryDisplayText\<close> maps the six known categories, compared in lower case, by the
  table, and every other non-empty category that is not the name of an inherited
  property to its first character in upper case followed by the rest in lower case.
\<close>

theorem category_resolution_and_display:
  "getPostCategory p =
     (if trim (category p) \<noteq> [] then trim (category p)
      else if trim (takeWhile (\<lambda>c. c \<noteq> CHR '','') (tags p)) \<noteq> []
           then trim (takeWhile (\<lambda>c. c \<noteq> CHR '','') (tags p))
      else ''post'')
   \<and> (toLowerCase c = ''tech'' \<longrightarrow> getCategoryDisplayText c = Text ''Tech'')
   \<and> (toLowerCase c = ''thoughts'' \<longrightarrow> getCategoryDisplayText c = Text ''Thoughts'')
   \<and> (toLowerCase c = ''stories'' \<longrightarrow> getCategoryDisplayText c = Text ''Stories'')
   \<and> (toLowerCase c = ''career'' \<longrightarrow> getCategoryDisplayText c = Text ''Career'')
   \<and> (toLowerCase c = ''project'' \<longrightarrow> getCategoryDisplayText c = Text ''Project'')
   \<and> (toLowerCase c = ''post'' \<longrightarrow> getCategoryDisplayText c = Text ''Post'')
   \<and> (c \<noteq> []
        \<and> toLowerCase c \<notin> set [''tech'', ''thoughts'', ''stories'', ''career'', ''project'', ''post'']
        \<and> toLowerCase c \<notin> set [''constructor'', ''__proto__'']
      \<longrightarrow> getCategoryDisplayText c = Text (toUpperCase (take 1 c) @ toLowerCase (drop 1 c)))"
proof -
  have resolution: "getPostCategory p =
     (if trim (category p) \<noteq> [] then trim (category p)
      else if trim (takeWhile (\<lambda>c. c \<noteq> CHR '','') (tags p)) \<noteq> []
           then trim (takeWhile (\<lambda>c. c \<noteq> CHR '','') (tags p))
      else ''post'')"
    using trim_prefix_nonblank [of "\<lambda>c. c \<noteq> CHR '',''" "tags p"]
    by (auto simp add: getPostCategory_def)
  have known: "toLowerCase c = k \<Longrightarrow> map_of displayNames k = Some v
      \<Longrightarrow> getCategoryDisplayText c = Text v" for k v
    by (auto simp add: getCategoryDisplayText_def toLowerCase_def displayNames_def)
  have unknown: "getCategoryDisplayText c = Text (toUpperCase (take 1 c) @ toLowerCase (drop 1 c))"
    if "c \<noteq> []"
      and "toLowerCase c \<notin> set [''tech'', ''thoughts'', ''stories'', ''career'', ''project'', ''post'']"
      and "toLowerCase c \<notin> set [''constructor'', ''__proto__'']"
  proof -
    from that(2) have "map_of displayNames (toLowerCase c) = None"
      by (simp add: displayNames_def)
    with that(1,3) show ?thesis
      by (simp add: getCategoryDisplayText_def inherited_names_def capitalise_def)
  qed
  show ?thesis
    using resolution unknown
      known [of "''tech''" "''Tech''"] known [of "''thoughts''" "''Thoughts''"]
      known [of "''stories''" "''Stories''"] known [of "''career''" "''Career''"]
      known [of "''project''" "''Project''"] known [of "''post''" "''Post''"]
    by (simp add: displayNames_def)
qed

theorem category_resolution_and_display_witness:
  "getPostCategory (empty_post\<lparr>tags := ''rust, web''\<rparr>) = ''rust''
   \<and> getCategoryDisplayText ''CAREER'' = Text ''Career''
   \<and> getCategoryDisplayText ''rUST'' = Text ''Rust''"
  using category_resolution_and_display [of "empty_post\<lparr>tags := ''rust, web''\<rparr>" "''CAREER''"]
    category_resolution_and_display [of empty_post "''rUST''"]
  by (simp add: empty_post_def trim_def is_space_def toLowerCase_def lower_char_def
      toUpperCase_def upper_char_def)

text \<open>
  The claim as the specification words it (the category is returned as it stands
  whenever it is a non-empty string) fails on a category with white space around it.
\<close>

theorem category_returned_untrimmed_counterexample:
  "category (empty_post\<lparr>category := '' tech''\<rparr>) \<noteq> []
   \<and> getPostCategory (empty_post\<lparr>category := '' tech''\<rparr>) \<noteq>
       category (empty_post\<lparr>category := '' tech''\<rparr>)"
  by (simp add: getPostCategory_def empty_post_def trim_def is_space_def)

lemma inherited_name_is_no_label:
  "getCategoryDisplayText ''Constructor'' = Inherited ''constructor''"
  by (simp add: getCategoryDisplayText_def displayNames_def inherited_names_def
      toLowerCase_def lower_char_def)

section \<open>The ghost-row filler\<close>

lemma filter_ghost_free: "GhostCard \<notin> set cs \<Longrightarrow> filter (\<lambda>n. n \<noteq> GhostCard) cs = cs"
  by (induction cs) auto

lemma ghost_fill_zero_width:
  "containerWidth \<le> 0 \<Longrightarrow>
     ghost_fill containerWidth cs = filter (\<lambda>n. n \<noteq> GhostCard) cs"
  by (simp add: ghost_fill_def Let_def)

lemma ghost_fill_single_column:
  "containerWidth div 350 \<le> 1 \<Longrightarrow>
     ghost_fill containerWidth cs = filter (\<lambda>n. n \<noteq> GhostCard) cs"
  by (auto simp: ghost_fill_def Let_def)

lemma ghost_fill_appends:
  assumes "GhostCard \<notin> set cs" "1 < w div 350" "int (length cs) mod (w div 350) \<noteq> 0"
  shows "ghost_fill w cs =
           cs @ replicate (nat (w div 350 - int (length cs) mod (w div 350))) GhostCard"
proof -
  from assms(2) have "0 < w"
    by (cases "w \<le> 0") (auto simp: div_nonpos_pos_le0 dest: order_trans)
  then show ?thesis
    using assms by (simp add: ghost_fill_def Let_def filter_ghost_free)
qed

text \<open>
  A second call counts the fillers of the first among the posts, finds the last row
  full, and leaves the list without fillers: whenever the first call adds fillers, the
  second removes them again.
\<close>

lemma ghost_fill_twice_drops:
  assumes "GhostCard \<notin> set cs" "1 < w div 350" "int (length cs) mod (w div 350) \<noteq> 0"
  shows "ghost_fill w (ghost_fill w cs) = cs"
proof -
  let ?c = "w div 350"
  let ?r = "int (length cs) mod ?c"
  have once: "ghost_fill w cs = cs @ replicate (nat (?c - ?r)) GhostCard"
    using assms by (rule ghost_fill_appends)
  have r: "0 \<le> ?r" "?r < ?c"
    using assms(2) by simp_all
  have len: "int (length (ghost_fill w cs)) = int (length cs) + (?c - ?r)"
    using r by (simp add: once)
  have "int (length cs) + (?c - ?r) = ?c * (int (length cs) div ?c) + ?c"
    by (simp add: minus_mod_eq_mult_div [symmetric])
  with len have "int (length (ghost_fill w cs)) = ?c * (int (length cs) div ?c) + ?c"
    by (simp only:)
  then have zero: "int (length (ghost_fill w cs)) mod ?c = 0"
    by simp
  have kept: "filter (\<lambda>n. n \<noteq> GhostCard) (ghost_fill w cs) = cs"
    using assms(1) by (simp add: once filter_ghost_free)
  from assms(2) have "0 < w"
    by (cases "w \<le> 0") (auto simp: div_nonpos_pos_le0 dest: order_trans)
  then show ?thesis
    using zero kept assms(2) by (simp add: ghost_fill_def [of w "ghost_fill w cs"] Let_def)
qed

text \<open>
  Claim C9 says that two calls of \<^verbatim>\<open>addGhostCards\<close> in a row leave the same list as one.
  On a list of four cards in a container 1050 pixels wide (three cards to a row) the
  first call appends two fillers and the second call leaves the four cards alone.
\<close>

theorem addGhostCards_twice_differs:
  "post_list (addGhostCards
       (blank_page\<lparr>offsetWidth := 1050,
                    post_list := Some (replicate 4 (createRegularPost empty_post))\<rparr>))
     = Some (replicate 4 (createRegularPost empty_post) @ [GhostCard, GhostCard])
   \<and> post_list (addGhostCards (addGhostCards
       (blank_page\<lparr>offsetWidth := 1050,
                    post_list := Some (replicate 4 (createRegularPost empty_post))\<rparr>)))
     = Some (replicate 4 (createRegularPost empty_post))"
  by (simp add: addGhostCards_def ghost_fill_def createRegularPost_def blank_page_def
      numeral_eq_Suc)

section \<open>What \<^verbatim>\<open>loadSearchResults\<close> requests\<close>

lemma coerce_page_cases:
  "coerce_page page = (case page of JNum n \<Rightarrow> if 1 \<le> n then n else 1 | _ \<Rightarrow> 1)"
  by (cases page) (simp_all add: coerce_page_def)

text \<open>
  Claim C10. Whatever \<^verbatim>\<open>loadSearchResults\<close> is handed, it returns without throwing. A query
  that is no string is replaced by \<^verbatim>\<open>String(query || '')\<close> and a page that is no integer
  or is below 1 by 1. When the conversion of the query succeeds, exactly one fetch is
  added: its URL is the search path with a page parameter that is at least 1 and with
  the search parameter exactly when the converted query is not empty. When the
  conversion throws, the \<^verbatim>\<open>catch\<close> block runs and nothing is fetched.
\<close>

theorem loadSearchResults_normalises:
  "\<exists>s'. loadSearchResults query page s = Inr s'
     \<and> 1 \<le> coerce_page page
     \<and> (\<forall>n. page = JNum n \<and> 1 \<le> n \<longrightarrow> coerce_page page = n)
     \<and> ((\<forall>n. page = JNum n \<longrightarrow> n < 1) \<longrightarrow> coerce_page page = 1)
     \<and> (\<forall>q. query = JStr q \<longrightarrow> coerce_query query = Inr q)
     \<and> ((\<forall>q. query \<noteq> JStr q) \<longrightarrow>
            coerce_query query = js_String (if truthy query then query else JStr []))
     \<and> (\<forall>q. coerce_query query = Inr q \<longrightarrow>
            requests s' = requests s @
              [\<lparr>req_url = \<lparr>path = ''/blog/search/'', page_param = coerce_page page,
                            search_param = (if q = [] then None else Some q)\<rparr>,
                resume = SearchResume (coerce_page page) q\<rparr>])
     \<and> (\<forall>e. coerce_query query = Inl e \<longrightarrow>
            s' = (showSearchError s)\<lparr>isLoading := False\<rparr> \<and> requests s' = requests s)"
proof -
  have page1: "1 \<le> coerce_page page"
    by (cases page) (simp_all add: coerce_page_def)
  have page2: "\<forall>n. page = JNum n \<and> 1 \<le> n \<longrightarrow> coerce_page page = n"
    by (simp add: coerce_page_def)
  have page3: "(\<forall>n. page = JNum n \<longrightarrow> n < 1) \<longrightarrow> coerce_page page = 1"
    by (cases page) (simp_all add: coerce_page_def)
  have query1: "\<forall>q. query = JStr q \<longrightarrow> coerce_query query = Inr q"
    by (simp add: coerce_query_def)
  have query2: "(\<forall>q. query \<noteq> JStr q) \<longrightarrow>
      coerce_query query = js_String (if truthy query then query else JStr [])"
    by (cases query) (simp_all add: coerce_query_def)
  show ?thesis
  proof (cases "coerce_query query")
    case (Inl e)
    then have "loadSearchResults query page s = Inr ((showSearchError s)\<lparr>isLoading := False\<rparr>)"
      by (simp add: loadSearchResults_def loadSearchResults_try_def)
    moreover have "requests ((showSearchError s)\<lparr>isLoading := False\<rparr>) = requests s"
      by (simp add: showSearchError_def split: option.splits)
    ultimately show ?thesis
      using Inl page1 page2 page3 query1 query2 by simp
  next
    case (Inr q)
    then have "loadSearchResults query page s =
        Inr (fetch (search_url q (coerce_page page)) (SearchResume (coerce_page page) q) s)"
      by (simp add: loadSearchResults_def loadSearchResults_try_def)
    moreover have "requests (fetch (search_url q (coerce_page page))
          (SearchResume (coerce_page page) q) s) = requests s @
        [\<lparr>req_url = \<lparr>path = ''/blog/search/'', page_param = coerce_page page,
                      search_param = (if q = [] then None else Some q)\<rparr>,
          resume = SearchResume (coerce_page page) q\<rparr>]"
      by (simp add: fetch_def search_url_def)
    ultimately show ?thesis
      using Inr page1 page2 page3 query1 query2 by simp
  qed
qed

theorem loadSearchResults_normalises_witness:
  "(\<exists>s'. loadSearchResults (JBool True) (JNum (- 3)) blank_page = Inr s'
      \<and> requests s' =
          [\<lparr>req_url = \<lparr>path = ''/blog/search/'', page_param = 1, search_param = Some ''true''\<rparr>,
            resume = SearchResume 1 ''true''\<rparr>])
   \<and> (\<exists>s'. loadSearchResults (JNum 0) (JNum 2) blank_page = Inr s'
      \<and> requests s' =
          [\<lparr>req_url = \<lparr>path = ''/blog/search/'', page_param = 2, search_param = None\<rparr>,
            resume = SearchResume 2 []\<rparr>])
   \<and> (\<exists>s'. loadSearchResults (JFrac CHR ''1'' ''.5'') (JFrac CHR ''2'' ''.5'') blank_page = Inr s'
      \<and> requests s' =
          [\<lparr>req_url = \<lparr>path = ''/blog/search/'', page_param = 1, search_param = Some ''1.5''\<rparr>,
            resume = SearchResume 1 ''1.5''\<rparr>])
   \<and> (\<exists>s'. loadSearchResults (JInfinity True) (JInfinity True) blank_page = Inr s'
      \<and> requests s' =
          [\<lparr>req_url = \<lparr>path = ''/blog/search/'', page_param = 1,
                        search_param = Some ''Infinity''\<rparr>,
            resume = SearchResume 1 ''Infinity''\<rparr>])
   \<and> (\<exists>s'. loadSearchResults (JObj None) JNaN blank_page = Inr s'
      \<and> requests s' = [] \<and> post_list s' = Some [SearchErrorNote])"
proof -
  have "\<exists>s'. loadSearchResults (JBool True) (JNum (- 3)) blank_page = Inr s'
      \<and> requests s' =
          [\<lparr>req_url = \<lparr>path = ''/blog/search/'', page_param = 1, search_param = Some ''true''\<rparr>,
            resume = SearchResume 1 ''true''\<rparr>]"
    using loadSearchResults_normalises [of "JBool True" "JNum (- 3)" blank_page]
    by (auto simp add: coerce_query_def coerce_page_def blank_page_def)
  moreover have "\<exists>s'. loadSearchResults (JNum 0) (JNum 2) blank_page = Inr s'
      \<and> requests s' =
          [\<lparr>req_url = \<lparr>path = ''/blog/search/'', page_param = 2, search_param = None\<rparr>,
            resume = SearchResume 2 []\<rparr>]"
    using loadSearchResults_normalises [of "JNum 0" "JNum 2" blank_page]
    by (auto simp add: coerce_query_def coerce_page_def blank_page_def)
  moreover have "\<exists>s'. loadSearchResults (JFrac CHR ''1'' ''.5'') (JFrac CHR ''2'' ''.5'') blank_page
        = Inr s'
      \<and> requests s' =
          [\<lparr>req_url = \<lparr>path = ''/blog/search/'', page_param = 1, search_param = Some ''1.5''\<rparr>,
            resume = SearchResume 1 ''1.5''\<rparr>]"
    using loadSearchResults_normalises
        [of "JFrac CHR ''1'' ''.5''" "JFrac CHR ''2'' ''.5''" blank_page]
    by (auto simp add: coerce_query_def coerce_page_def blank_page_def)
  moreover have "\<exists>s'. loadSearchResults (JInfinity True) (JInfinity True) blank_page = Inr s'
      \<and> requests s' =
          [\<lparr>req_url = \<lparr>path = ''/blog/search/'', page_param = 1,
                        search_param = Some ''Infinity''\<rparr>,
            resume = SearchResume 1 ''Infinity''\<rparr>]"
    using loadSearchResults_normalises [of "JInfinity True" "JInfinity True" blank_page]
    by (auto simp add: coerce_query_def coerce_page_def blank_page_def)
  moreover have "\<exists>s'. loadSearchResults (JObj None) JNaN blank_page = Inr s'
      \<and> requests s' = [] \<and> post_list s' = Some [SearchErrorNote]"
    using loadSearchResults_normalises [of "JObj None" JNaN blank_page]
    by (auto simp add: coerce_query_def blank_page_def showSearchError_def)
  ultimately show ?thesis
    by blast
qed

section \<open>Frame lemmas\<close>





lemma render_listing_no_array:
  "(\<forall>ps. blog_posts data \<noteq> Posts ps) \<Longrightarrow> render_listing data s = s"
  by (cases "blog_posts data") (simp_all add: render_listing_def)

lemma loadImages_frame:
  "page_num (loadImages s) = page_num s" "isSearchMode (loadImages s) = isSearchMode s"
  "hasNext (loadImages s) = hasNext s" "currentPage (loadImages s) = currentPage s"
  "currentSearchQuery (loadImages s) = currentSearchQuery s"
  "currentTag (loadImages s) = currentTag s"
  "featured (loadImages s) = featured s" "post_list (loadImages s) = post_list s"
  "offsetWidth (loadImages s) = offsetWidth s" "search_status (loadImages s) = search_status s"
  "search_active (loadImages s) = search_active s"
  "scrolls_to_top (loadImages s) = scrolls_to_top s"
  by (simp_all add: loadImages_def loadImages_finally_def setTimeout_def fetch_def)

lemma loadSearchResults_str:
  "loadSearchResults (JStr q) page s =
     Inr (fetch (search_url q (coerce_page page)) (SearchResume (coerce_page page) q) s)"
  by (simp add: loadSearchResults_def loadSearchResults_try_def coerce_query_def)


section \<open>First page of the listing\<close>







section \<open>Failure of a listing request\<close>

text \<open>
  Claim C4, as amended. Whatever the response, \<^verbatim>\<open>isLoading\<close> is false when the rest of
  \<^verbatim>\<open>loadImages\<close> has run. When the fetch fails, that is on a network error, on a status
  outside 2xx, or on a body that is not JSON or is \<^verbatim>\<open>null\<close>, \<^verbatim>\<open>page_num\<close> and the featured
  container are left as they were and the error banner is appended to the post list, if
  the document has one. When the status is 2xx and the body is any other JSON value
  whose \<^verbatim>\<open>blog_posts\<close> is no array (absent included, as in the bodies \<^verbatim>\<open>5\<close> or \<^verbatim>\<open>{}\<close>),
  nothing is rendered, no banner is shown, and \<^verbatim>\<open>page_num\<close> still advances (unless
  \<^verbatim>\<open>has_next\<close> is falsy on a page after the first).
\<close>

theorem listing_failure_retryable:
  "\<not> isLoading (loadImages_resume r s)
   \<and> (r = NetworkError
        \<or> (\<exists>status body. r = HttpResponse status body \<and> (body = None \<or> \<not> response_ok status))
      \<longrightarrow>
        page_num (loadImages_resume r s) = page_num s
        \<and> featured (loadImages_resume r s) = featured s
        \<and> (\<forall>children. post_list s = Some children \<longrightarrow>
              post_list (loadImages_resume r s) =
                Some (children @ [ErrorBanner (next_banner s)
                   ''Error loading blog posts. Please try refreshing the page.''])))
   \<and> (\<forall>status data. r = HttpResponse status (Some data) \<and> response_ok status
          \<and> (\<forall>ps. blog_posts data \<noteq> Posts ps) \<longrightarrow>
        featured (loadImages_resume r s) = featured s
        \<and> post_list (loadImages_resume r s) = post_list s
        \<and> next_banner (loadImages_resume r s) = next_banner s
        \<and> page_num (loadImages_resume r s) =
            (if \<not> has_next data \<and> 1 < page_num s then page_num s else page_num s + 1))"
proof -
  have idle: "\<not> isLoading (loadImages_resume r s)"
    by (simp add: loadImages_resume_def loadImages_failed_def loadImages_finally_def
        setTimeout_def Let_def split: response.splits option.splits)
  have banner: "page_num (loadImages_failed s) = page_num s
     \<and> featured (loadImages_failed s) = featured s
     \<and> (\<forall>children. post_list s = Some children \<longrightarrow>
              post_list (loadImages_failed s) =
                Some (children @ [ErrorBanner (next_banner s)
                   ''Error loading blog posts. Please try refreshing the page.'']))"
    by (simp add: loadImages_failed_def loadImages_finally_def setTimeout_def
        showErrorMessage_def Let_def split: option.splits)
  have caught: "loadImages_resume r s = loadImages_failed s"
    if "r = NetworkError
        \<or> (\<exists>status body. r = HttpResponse status body \<and> (body = None \<or> \<not> response_ok status))"
    using that by (auto simp add: loadImages_resume_def)
  have skipped: "featured (loadImages_resume r s) = featured s
        \<and> post_list (loadImages_resume r s) = post_list s
        \<and> next_banner (loadImages_resume r s) = next_banner s
        \<and> page_num (loadImages_resume r s) =
            (if \<not> has_next data \<and> 1 < page_num s then page_num s else page_num s + 1)"
    if "r = HttpResponse status (Some data)" "response_ok status"
      "\<forall>ps. blog_posts data \<noteq> Posts ps"
    for status data
    using that
    by (simp add: loadImages_resume_def render_listing_no_array loadImages_finally_def
        setTimeout_def)
  show ?thesis
    using idle banner caught skipped by auto
qed

theorem listing_failure_retryable_witness:
  "page_num (loadImages_resume (HttpResponse 500 None) (loadImages (blank_page\<lparr>page_num := 2\<rparr>))) = 2
   \<and> \<not> isLoading (loadImages_resume (HttpResponse 500 None)
          (loadImages (blank_page\<lparr>page_num := 2\<rparr>)))
   \<and> post_list (loadImages_resume (HttpResponse 500 None)
          (loadImages (blank_page\<lparr>page_num := 2\<rparr>)))
       = Some [ErrorBanner 0 ''Error loading blog posts. Please try refreshing the page.'']
   \<and> post_list (loadImages_resume (HttpResponse 200 None)
          (loadImages (blank_page\<lparr>page_num := 2\<rparr>)))
       = Some [ErrorBanner 0 ''Error loading blog posts. Please try refreshing the page.'']
   \<and> page_num (loadImages_resume
          (HttpResponse 200 (Some \<lparr>blog_posts = Missing, has_next = False, total_results = 0\<rparr>))
          (loadImages (blank_page\<lparr>page_num := 2\<rparr>))) = 2
   \<and> page_num (loadImages_resume
          (HttpResponse 200 (Some \<lparr>blog_posts = Missing, has_next = False, total_results = 0\<rparr>))
          (loadImages blank_page)) = 2
   \<and> post_list (loadImages_resume
          (HttpResponse 200 (Some \<lparr>blog_posts = Missing, has_next = False, total_results = 0\<rparr>))
          (loadImages blank_page)) = Some []"
proof -
  have start: "page_num (loadImages (blank_page\<lparr>page_num := 2\<rparr>)) = 2"
    "post_list (loadImages (blank_page\<lparr>page_num := 2\<rparr>)) = Some []"
    "next_banner (loadImages (blank_page\<lparr>page_num := 2\<rparr>)) = 0"
    "page_num (loadImages blank_page) = 1"
    "post_list (loadImages blank_page) = Some []"
    by (simp_all add: blank_page_def loadImages_def fetch_def)
  show ?thesis
    using listing_failure_retryable
        [of "HttpResponse 500 None" "loadImages (blank_page\<lparr>page_num := 2\<rparr>)"]
      listing_failure_retryable
        [of "HttpResponse 200 None" "loadImages (blank_page\<lparr>page_num := 2\<rparr>)"]
      listing_failure_retryable
        [of "HttpResponse 200 (Some \<lparr>blog_posts = Missing, has_next = False, total_results = 0\<rparr>)"
            "loadImages (blank_page\<lparr>page_num := 2\<rparr>)"]
      listing_failure_retryable
        [of "HttpResponse 200 (Some \<lparr>blog_posts = Missing, has_next = False, total_results = 0\<rparr>)"
            "loadImages blank_page"]
    by (simp add: start response_ok_def)
qed

text \<open>
  The claim as the specification words it also promises the banner and an unchanged
  \<^verbatim>\<open>page_num\<close> when \<^verbatim>\<open>blog_posts\<close> is no array. On the first page, a good response with
  such a body moves \<^verbatim>\<open>page_num\<close> to 2 and shows nothing.
\<close>

theorem malformed_payload_advances_counterexample:
  "page_num (run [Respond 0
       (HttpResponse 200 (Some \<lparr>blog_posts = NotArray, has_next = True, total_results = 0\<rparr>))]
       init) = 2
   \<and> post_list (run [Respond 0
       (HttpResponse 200 (Some \<lparr>blog_posts = NotArray, has_next = True, total_results = 0\<rparr>))]
       init) = Some []"
  by code_simp

section \<open>The end of the listing\<close>

text \<open>
  Claim C3, as amended. The listing stream keeps no mark of its end. On a page after the
  first, a call of \<^verbatim>\<open>loadImages\<close> made while nothing is loading always sends a request
  for \<^verbatim>\<open>page_num\<close>, also when the last response for that page said \<^verbatim>\<open>has_next\<close> is
  false. When the response again says so, the state is what it was before the call: the
  page number, both containers and \<^verbatim>\<open>isLoading\<close> are unchanged, and only the timer of the
  viewport check has been added.
\<close>

theorem exhausted_listing_refetches:
  assumes "1 < page_num s" and "\<not> isLoading s" and "response_ok status"
    and "\<not> has_next data"
  shows "requests (loadImages s) =
           requests s @ [\<lparr>req_url = listing_url (page_num s), resume = ListingResume\<rparr>]
       \<and> step (Respond (length (requests s)) (HttpResponse status (Some data))) (loadImages s) =
           s\<lparr>timers := timers s @ [(100, CheckMoreContent)]\<rparr>"
proof -
  have called: "loadImages s =
      s\<lparr>isLoading := True,
        requests := requests s @ [\<lparr>req_url = listing_url (page_num s), resume = ListingResume\<rparr>]\<rparr>"
    using assms(2) by (simp add: loadImages_def fetch_def)
  have idle: "s\<lparr>isLoading := False\<rparr> = s"
    using assms(2) by simp
  show ?thesis
    using assms idle
    by (simp add: called step_def deliver_def loadImages_resume_def loadImages_finally_def
        setTimeout_def)
qed

theorem exhausted_listing_refetches_witness:
  "requests (loadImages (blank_page\<lparr>page_num := 2\<rparr>)) =
     [\<lparr>req_url = \<lparr>path = [], page_param = 2, search_param = None\<rparr>, resume = ListingResume\<rparr>]
   \<and> step (Respond 0 (page_of [] False)) (loadImages (blank_page\<lparr>page_num := 2\<rparr>)) =
       blank_page\<lparr>page_num := 2, timers := [(100, CheckMoreContent)]\<rparr>"
proof -
  have start: "1 < page_num (blank_page\<lparr>page_num := 2\<rparr>)"
    "\<not> isLoading (blank_page\<lparr>page_num := 2\<rparr>)"
    by (simp_all add: blank_page_def)
  have ok: "response_ok 200"
    by (simp add: response_ok_def)
  have last: "\<not> has_next \<lparr>blog_posts = Posts [], has_next = False, total_results = int (length [])\<rparr>"
    by simp
  show ?thesis
    using exhausted_listing_refetches [OF start ok last]
    by (simp add: page_of_def listing_url_def blank_page_def)
qed

text \<open>
  The claim as the specification words it says that no call fetches once the end has
  been seen. In a window 900 pixels high, scrolled to 1200 of a body of 3000, page 1
  answers, a scroll loads page 2, page 2 answers with \<^verbatim>\<open>has_next\<close> false, and the next
  scroll requests page 2 again.
\<close>

theorem exhausted_listing_counterexample:
  "page_num (run [Measure 1050 3000 900 1200 3000,
                  Respond 0 (page_of [empty_post] True), Scroll, Fire 1,
                  Respond 0 (page_of [empty_post] False)] init) = 2
   \<and> requests (run [Measure 1050 3000 900 1200 3000,
                    Respond 0 (page_of [empty_post] True), Scroll, Fire 1,
                    Respond 0 (page_of [empty_post] False)] init) = []
   \<and> map req_url (requests (run [Measure 1050 3000 900 1200 3000,
                                  Respond 0 (page_of [empty_post] True), Scroll, Fire 1,
                                  Respond 0 (page_of [empty_post] False), Scroll, Fire 2] init))
       = [listing_url 2]"
  by code_simp

section \<open>A search response that arrives after the reset\<close>

text \<open>
  Claim C2, as amended. \<^verbatim>\<open>clearSearch\<close> leaves search mode, empties the query, sets
  \<^verbatim>\<open>page_num\<close> and both cursors back and empties the post list, but it does not disarm a
  search request that is still in flight: the requests in flight before the call are
  still in flight after it. The handler of a page-1 search response looks
  only at the page number of its own call: when the response arrives after the reset,
  it replaces the post list by the search results (or by the no-results note) and
  overwrites the cursors, while the page stays out of search mode.
\<close>

theorem stale_search_response_rendered:
  assumes "post_list s = Some children" and "response_ok status"
  shows "\<not> isSearchMode (clearSearch s)
       \<and> page_num (clearSearch s) = 1
       \<and> currentSearchQuery (clearSearch s) = []
       \<and> hasNext (clearSearch s) = Some True
       \<and> currentPage (clearSearch s) = Some 1
       \<and> post_list (clearSearch s) = Some []
       \<and> take (length (requests s)) (requests (clearSearch s)) = requests s
       \<and> \<not> isSearchMode
            (loadSearchResults_resume 1 query (HttpResponse status (Some data)) (clearSearch s))
       \<and> post_list
            (loadSearchResults_resume 1 query (HttpResponse status (Some data)) (clearSearch s)) =
           Some (case blog_posts data of
                   Posts ps \<Rightarrow> if ps = [] then [NoResults]
                              else ghost_fill (offsetWidth s) (map createRegularPost ps)
                 | _ \<Rightarrow> [NoResults])
       \<and> hasNext
            (loadSearchResults_resume 1 query (HttpResponse status (Some data)) (clearSearch s)) =
           Some (has_next data)
       \<and> currentPage
            (loadSearchResults_resume 1 query (HttpResponse status (Some data)) (clearSearch s)) =
           Some 1"
proof -
  let ?t = "clearSearch s"
  have reset: "\<not> isSearchMode ?t" "page_num ?t = 1" "currentSearchQuery ?t = []"
    "hasNext ?t = Some True" "currentPage ?t = Some 1" "post_list ?t = Some []"
    "offsetWidth ?t = offsetWidth s"
    using assms(1)
    by (simp_all add: clearSearch_def Let_def loadImages_frame scrollToTop_def set_title_def
        clear_containers_def split: option.splits)
  have kept: "take (length (requests s)) (requests ?t) = requests s"
    by (simp add: clearSearch_def Let_def loadImages_def loadImages_finally_def setTimeout_def
        fetch_def scrollToTop_def set_title_def clear_containers_def split: option.splits)
  have shown: "post_list (displaySearchResults posts ?t) =
           Some (case posts of
                   Posts ps \<Rightarrow> if ps = [] then [NoResults]
                              else ghost_fill (offsetWidth s) (map createRegularPost ps)
                 | _ \<Rightarrow> [NoResults])
      \<and> isSearchMode (displaySearchResults posts ?t) = False
      \<and> search_status (displaySearchResults posts ?t) = search_status ?t" for posts
    using reset
    by (cases posts)
      (simp_all add: displaySearchResults_def addGhostCards_def appendRegularPosts_def)
  show ?thesis
    using reset kept assms(2) shown [of "Posts []"] shown [of "blog_posts data"]
    by (cases "blog_posts data")
      (simp_all add: loadSearchResults_resume_def Let_def setTimeout_def updateSearchStatus_def
        split: option.splits)
qed

theorem stale_search_response_rendered_witness:
  "post_list (loadSearchResults_resume 1 ''rust''
       (HttpResponse 200 (Some \<lparr>blog_posts = Posts [empty_post\<lparr>title := ''Rust tips''\<rparr>],
                                has_next = False, total_results = 1\<rparr>))
       (clearSearch blank_page))
     = Some [createRegularPost (empty_post\<lparr>title := ''Rust tips''\<rparr>)]
   \<and> \<not> isSearchMode (loadSearchResults_resume 1 ''rust''
       (HttpResponse 200 (Some \<lparr>blog_posts = Posts [empty_post\<lparr>title := ''Rust tips''\<rparr>],
                                has_next = False, total_results = 1\<rparr>))
       (clearSearch blank_page))"
proof -
  have start: "post_list blank_page = Some []" "offsetWidth blank_page = 0"
    by (simp_all add: blank_page_def)
  have ok: "response_ok 200"
    by (simp add: response_ok_def)
  show ?thesis
    using stale_search_response_rendered [OF start(1) ok, of "''rust''"
        "\<lparr>blog_posts = Posts [empty_post\<lparr>title := ''Rust tips''\<rparr>],
          has_next = False, total_results = 1\<rparr>"]
    by (simp add: start(2) ghost_fill_def createRegularPost_def)
qed

text \<open>
  The claim as the specification words it says that such a response is discarded. The
  user searches for \<^verbatim>\<open>rust\<close> on the fresh page and clears the search before the answer
  is there; the answer then fills the post list although the page is not in search mode.
\<close>

theorem stale_search_response_counterexample:
  "\<not> isSearchMode (run [PerformSearch ''rust'', ClearSearch,
          Respond 1 (page_of [empty_post\<lparr>title := ''Rust tips''\<rparr>] False)] init)
   \<and> post_list (run [PerformSearch ''rust'', ClearSearch] init) = Some []
   \<and> post_list (run [PerformSearch ''rust'', ClearSearch,
          Respond 1 (page_of [empty_post\<lparr>title := ''Rust tips''\<rparr>] False)] init)
       = Some [createRegularPost (empty_post\<lparr>title := ''Rust tips''\<rparr>)]"
  by code_simp

section \<open>An empty search and the reset\<close>

text \<open>
  Claim C6, as amended. \<^verbatim>\<open>performSearch\<close> with the empty query and \<^verbatim>\<open>clearSearch\<close> leave
  the same paging and search variables, the same two containers and the same effects:
  \<^verbatim>\<open>page_num\<close> is 1, search mode is off, the query and the tag are empty, the
  \<^verbatim>\<open>search-active\<close> class is gone, both containers are emptied, the page is scrolled to
  the top once, and \<^verbatim>\<open>loadImages\<close> is called (which sends the request for page 1 unless
  \<^verbatim>\<open>isLoading\<close> is set). Nothing is said here about the two \<^verbatim>\<open>window\<close> cursors, the section
  title, the search input, the status line and the pills, which only \<^verbatim>\<open>clearSearch\<close>
  sets back, nor about a query of white space, which \<^verbatim>\<open>performSearch\<close> does not trim.
\<close>

theorem empty_search_resets_like_clearSearch:
  "reset_view (performSearch [] s) = reset_view (clearSearch s)
   \<and> page_num (performSearch [] s) = 1
   \<and> \<not> isSearchMode (performSearch [] s)
   \<and> currentSearchQuery (performSearch [] s) = []
   \<and> currentTag (performSearch [] s) = []
   \<and> \<not> search_active (performSearch [] s)
   \<and> featured (performSearch [] s) = (case featured s of None \<Rightarrow> None | Some old \<Rightarrow> Some [])
   \<and> post_list (performSearch [] s) = (case post_list s of None \<Rightarrow> None | Some old \<Rightarrow> Some [])
   \<and> scrolls_to_top (performSearch [] s) = Suc (scrolls_to_top s)
   \<and> requests (performSearch [] s) =
       (if isLoading s then requests s
        else requests s @ [\<lparr>req_url = listing_url 1, resume = ListingResume\<rparr>])"
  by (simp add: reset_view_def performSearch_def clearSearch_def Let_def loadImages_def
      loadImages_finally_def setTimeout_def fetch_def scrollToTop_def set_title_def
      clear_containers_def split: option.splits)

theorem empty_search_resets_like_clearSearch_witness:
  "reset_view (performSearch [] init) = reset_view (clearSearch init)
   \<and> map req_url (requests (performSearch [] init)) = [listing_url 1, listing_url 1]"
  using empty_search_resets_like_clearSearch [of init]
  by (simp add: init_def blank_page_def loadImages_def fetch_def)

text \<open>
  The claim as the specification words it makes the two calls equivalent, cursors
  included, and also for a query of white space. After a search for \<^verbatim>\<open>rust\<close> has
  answered with \<^verbatim>\<open>has_next\<close> false, \<^verbatim>\<open>performSearch('')\<close> leaves \<^verbatim>\<open>window.hasNext\<close> false and
  the title of the search, where \<^verbatim>\<open>clearSearch\<close> sets them back; and a query of two blanks
  enters search mode.
\<close>

theorem empty_search_differs_counterexample:
  "hasNext (performSearch [] (run [PerformSearch ''rust'', Respond 1 (page_of [] False)] init))
     = Some False
   \<and> hasNext (clearSearch (run [PerformSearch ''rust'', Respond 1 (page_of [] False)] init))
     = Some True
   \<and> section_title
       (performSearch [] (run [PerformSearch ''rust'', Respond 1 (page_of [] False)] init))
     \<noteq> section_title
       (clearSearch (run [PerformSearch ''rust'', Respond 1 (page_of [] False)] init))
   \<and> isSearchMode (performSearch ''  '' init)
   \<and> \<not> isSearchMode (clearSearch init)"
  by code_simp

section \<open>Fetches in flight\<close>

lemma loadImages_guard:
  "isLoading s \<Longrightarrow> requests (loadImages s) = requests s \<and> \<not> isLoading (loadImages s)"
  by (simp add: loadImages_def loadImages_finally_def setTimeout_def)

lemma two_rapid_calls_one_request:
  "\<not> isLoading s \<Longrightarrow>
     requests (loadImages (loadImages s)) =
       requests s @ [\<lparr>req_url = listing_url (page_num s), resume = ListingResume\<rparr>]"
  by (simp add: loadImages_def loadImages_finally_def setTimeout_def fetch_def)

lemma performSearch_ignores_flag:
  "query \<noteq> [] \<Longrightarrow> post_list s = Some children \<Longrightarrow>
     requests (performSearch query s) =
       requests s @ [\<lparr>req_url = search_url query 1, resume = SearchResume 1 query\<rparr>]
     \<and> isLoading (performSearch query s) = isLoading s"
  by (simp add: performSearch_def Let_def loadSearchResults_str fetch_def coerce_page_def
      set_title_def scrollToTop_def split: option.splits)

lemma filterByTag_ignores_flag:
  "tagName \<noteq> [] \<Longrightarrow> post_list s = Some children \<Longrightarrow>
     requests (filterByTag tagName s) =
       requests s @ [\<lparr>req_url = search_url tagName 1, resume = SearchResume 1 tagName\<rparr>]
     \<and> isLoading (filterByTag tagName s) = isLoading s"
  by (simp add: filterByTag_def Let_def loadSearchResults_str fetch_def coerce_page_def
      set_title_def scrollToTop_def split: option.splits)

text \<open>
  Claim C1 says that at most one fetch is in flight at any time. The guard of
  \<^verbatim>\<open>loadImages\<close> holds (\<open>loadImages_guard\<close>), and two calls in a row send one request
  (\<open>two_rapid_calls_one_request\<close>), but the flag does not serialise the fetches:
  \<^item> \<^verbatim>\<open>performSearch\<close> and \<^verbatim>\<open>filterByTag\<close> fetch without reading or setting \<^verbatim>\<open>isLoading\<close>
    (\<open>performSearch_ignores_flag\<close>, \<open>filterByTag_ignores_flag\<close>), so a search request joins
    a listing request that is in flight while the flag is set;
  \<^item> the \<^verbatim>\<open>finally\<close> block clears the flag also when the guard returns early, so the third
    of three calls in a row sends a second request;
  \<^item> the script clears the flag right after its first call, so on the fresh page a scroll
    sends a second request for page 1.
\<close>

theorem fetches_overlap:
  "isLoading (loadImages blank_page)
   \<and> map req_url (requests (run [PerformSearch ''rust''] (loadImages blank_page)))
       = [listing_url 1, search_url ''rust'' 1]
   \<and> map req_url (requests (loadImages (loadImages (loadImages blank_page))))
       = [listing_url 1, listing_url 1]
   \<and> map req_url (requests (run [Measure 1050 3000 900 1200 3000, Scroll, Fire 0] init))
       = [listing_url 1, listing_url 1]"
  by code_simp

section \<open>With no fetch in flight the flag is clear\<close>












section \<open>The viewport check\<close>







end
